theory Spec2Isabelle
  imports Complex_Main "HOL-Library.AList"
begin

section \<open>JavaScript values as the client handles them\<close>

subsection \<open>Strings\<close>

text \<open>
  A JavaScript string is a sequence of UTF-16 code units; a code unit is kept as a natural
  number. \<open>lit\<close> turns an ASCII literal of the source into such a sequence.
\<close>

type_synonym jsstring = "nat list"

definition lit :: "string \<Rightarrow> jsstring" where
  "lit s = map of_char s"

text \<open>
  \<open>String.prototype.trim\<close> removes the WhiteSpace and LineTerminator code points of
  ECMAScript from both ends: TAB, LF, VT, FF, CR, SP, NBSP, U+1680, U+2000 to U+200A,
  U+2028, U+2029, U+202F, U+205F, U+3000 and U+FEFF.
\<close>

definition is_ws :: "nat \<Rightarrow> bool" where
  "is_ws c = (c \<in> {9, 10, 11, 12, 13, 32, 160, 5760, 8232, 8233, 8239, 8287, 12288, 65279}
              \<or> (8192 \<le> c \<and> c \<le> 8202))"

definition trim :: "jsstring \<Rightarrow> jsstring" where
  "trim s = rev (dropWhile is_ws (rev (dropWhile is_ws s)))"

subsection \<open>Numbers\<close>

text \<open>
  A JavaScript number is a finite value, NaN or one of the two infinities. Only the order and
  the test against zero are used by the client, and both are exact on finite values, so a
  finite number is kept as its rational value (\<open>-0\<close> is \<open>0\<close>).
\<close>

datatype jsnum = Fin rat | NaN | PosInf | NegInf

text \<open>The operator \<open><\<close> on numbers; \<open>a > b\<close> is \<open>js_lt b a\<close>. Any comparison with NaN is false.\<close>

fun js_lt :: "jsnum \<Rightarrow> jsnum \<Rightarrow> bool" where
  "js_lt NaN b = False"
| "js_lt a NaN = False"
| "js_lt (Fin a) (Fin b) = (a < b)"
| "js_lt (Fin a) PosInf = True"
| "js_lt (Fin a) NegInf = False"
| "js_lt PosInf b = False"
| "js_lt NegInf NegInf = False"
| "js_lt NegInf b = True"

definition number_truthy :: "jsnum \<Rightarrow> bool" where
  "number_truthy n = (n \<noteq> Fin 0 \<and> n \<noteq> NaN)"

text \<open>Decimal digits of a natural number, as code units.\<close>

fun digits :: "nat \<Rightarrow> jsstring" where
  "digits n = (if n < 10 then [48 + n] else digits (n div 10) @ [48 + n mod 10])"

declare digits.simps [simp del]

text \<open>
  \<open>Number::toString\<close>. An integer of magnitude at most \<open>2 ^ 53\<close> prints as its decimal
  digits. The text of every other finite number (fractions, exponent notation) is computed by
  the runtime from the binary representation; it is the parameter \<open>other\<close>.
\<close>

definition Number_toString :: "(rat \<Rightarrow> jsstring) \<Rightarrow> jsnum \<Rightarrow> jsstring" where
  "Number_toString other n =
     (case n of
        NaN \<Rightarrow> lit ''NaN''
      | PosInf \<Rightarrow> lit ''Infinity''
      | NegInf \<Rightarrow> lit ''-Infinity''
      | Fin q \<Rightarrow>
          if of_int \<lfloor>q\<rfloor> = q \<and> \<bar>q\<bar> \<le> 2 ^ 53
          then (if q < 0 then lit ''-'' else []) @ digits (nat \<bar>\<lfloor>q\<rfloor>\<bar>)
          else other q)"

subsection \<open>Parsed JSON\<close>

text \<open>
  The value \<open>response.json()\<close> resolves with. An object is the list of its own properties
  (keys distinct, as \<open>JSON.parse\<close> leaves them). \<open>undefined\<close> is \<open>None\<close> of an option.
\<close>

datatype json_value =
    JNull
  | JBool bool
  | JNum jsnum
  | JStr jsstring
  | JArr "json_value list"
  | JObj "(jsstring \<times> json_value) list"

fun truthy :: "json_value \<Rightarrow> bool" where
  "truthy JNull = False"
| "truthy (JBool b) = b"
| "truthy (JNum n) = number_truthy n"
| "truthy (JStr s) = (s \<noteq> [])"
| "truthy (JArr xs) = True"
| "truthy (JObj kvs) = True"

fun typeof :: "json_value \<Rightarrow> string" where
  "typeof JNull = ''object''"
| "typeof (JBool b) = ''boolean''"
| "typeof (JNum n) = ''number''"
| "typeof (JStr s) = ''string''"
| "typeof (JArr xs) = ''object''"
| "typeof (JObj kvs) = ''object''"

text \<open>
  Property read \<open>v.k\<close> for the keys the client reads (\<open>message\<close>, \<open>error\<close>, \<open>field\<close>,
  \<open>balance\<close>, \<open>required\<close>, \<open>retry_after\<close>): an object gives its own property, and neither
  an array nor \<open>Object.prototype\<close> has any of them.
\<close>

fun get_prop :: "json_value \<Rightarrow> jsstring \<Rightarrow> json_value option" where
  "get_prop (JObj kvs) k = map_of kvs k"
| "get_prop v k = None"

text \<open>The operator \<open>||\<close>: the left operand when it is truthy, else the right one.\<close>

definition js_or :: "json_value option \<Rightarrow> json_value option \<Rightarrow> json_value option" where
  "js_or a b = (case a of None \<Rightarrow> b | Some v \<Rightarrow> if truthy v then Some v else b)"

definition or_else :: "json_value option \<Rightarrow> json_value \<Rightarrow> json_value" where
  "or_else a d = (case a of None \<Rightarrow> d | Some v \<Rightarrow> if truthy v then v else d)"

text \<open>
  \<open>ToString\<close>, as a template literal and the \<open>Error\<close> constructor apply it. \<open>None\<close> is the
  TypeError of \<open>OrdinaryToPrimitive\<close>: an object with an own property \<open>toString\<close> (never
  callable in parsed JSON) falls through to \<open>Object.prototype.valueOf\<close>, which returns the
  object itself. An array joins its elements with commas, \<open>null\<close> elements as empty strings.
\<close>

fun ToString :: "(rat \<Rightarrow> jsstring) \<Rightarrow> json_value \<Rightarrow> jsstring option"
  and Array_join :: "(rat \<Rightarrow> jsstring) \<Rightarrow> json_value list \<Rightarrow> jsstring option" where
  "ToString f JNull = Some (lit ''null'')"
| "ToString f (JBool b) = Some (if b then lit ''true'' else lit ''false'')"
| "ToString f (JNum n) = Some (Number_toString f n)"
| "ToString f (JStr s) = Some s"
| "ToString f (JArr xs) = Array_join f xs"
| "ToString f (JObj kvs) =
     (if lit ''toString'' \<in> fst ` set kvs then None else Some (lit ''[object Object]''))"
| "Array_join f [] = Some []"
| "Array_join f (x # xs) =
     (case (if x = JNull then Some [] else ToString f x) of
        None \<Rightarrow> None
      | Some a \<Rightarrow>
          if xs = [] then Some a
          else (case Array_join f xs of None \<Rightarrow> None | Some b \<Rightarrow> Some (a @ lit '','' @ b)))"

section \<open>The error classes (errors.ts)\<close>

text \<open>An error object that is not one of the client's own: what \<open>fetch\<close>, \<open>json()\<close> or the runtime throws.\<close>

record js_error =
  name :: jsstring
  message :: jsstring

text \<open>
  One constructor for each class, with the message the \<open>Error\<close> constructor stored and the
  fields the class adds. The fields hold what the caller passed, without conversion.
\<close>

datatype rail_error =
    RailScoreError jsstring
  | AuthenticationError jsstring
  | InsufficientCreditsError jsstring json_value json_value
  | ValidationError jsstring "json_value option"
  | RateLimitError jsstring json_value
  | TimeoutError jsstring
  | NetworkError jsstring "js_error option"
  | ServerError jsstring nat

text \<open>The \<open>name\<close> each constructor assigns.\<close>

fun error_name :: "rail_error \<Rightarrow> string" where
  "error_name (RailScoreError m) = ''RailScoreError''"
| "error_name (AuthenticationError m) = ''AuthenticationError''"
| "error_name (InsufficientCreditsError m b r) = ''InsufficientCreditsError''"
| "error_name (ValidationError m fld) = ''ValidationError''"
| "error_name (RateLimitError m s) = ''RateLimitError''"
| "error_name (TimeoutError m) = ''TimeoutError''"
| "error_name (NetworkError m e) = ''NetworkError''"
| "error_name (ServerError m c) = ''ServerError''"

text \<open>What a \<open>throw\<close> carries: an instance of \<open>RailScoreError\<close> or anything else.\<close>

datatype thrown = Rail rail_error | Foreign js_error

text \<open>The TypeError of a failed string conversion, with the message V8 gives it.\<close>

definition type_error :: js_error where
  "type_error = \<lparr>name = lit ''TypeError'', message = lit ''Cannot convert object to primitive value''\<rparr>"

text \<open>
  \<open>new C(...)\<close> with a message that is converted to a string first: the conversion may throw
  before the instance exists.
\<close>

definition construct :: "jsstring option \<Rightarrow> (jsstring \<Rightarrow> rail_error) \<Rightarrow> thrown" where
  "construct m k = (case m of None \<Rightarrow> Foreign type_error | Some s \<Rightarrow> Rail (k s))"

definition new_RailScoreError :: "jsstring option \<Rightarrow> thrown" where
  "new_RailScoreError m = construct m RailScoreError"

definition new_AuthenticationError :: "(rat \<Rightarrow> jsstring) \<Rightarrow> json_value \<Rightarrow> thrown" where
  "new_AuthenticationError f m = construct (ToString f m) AuthenticationError"

definition new_InsufficientCreditsError ::
  "(rat \<Rightarrow> jsstring) \<Rightarrow> json_value \<Rightarrow> json_value \<Rightarrow> thrown" where
  "new_InsufficientCreditsError f balance required =
     construct
       (case ToString f balance of
          None \<Rightarrow> None
        | Some b \<Rightarrow>
            (case ToString f required of
               None \<Rightarrow> None
             | Some r \<Rightarrow>
                 Some (lit ''Insufficient credits. Balance: '' @ b @ lit '', Required: '' @ r)))
       (\<lambda>s. InsufficientCreditsError s balance required)"

definition new_ValidationError ::
  "(rat \<Rightarrow> jsstring) \<Rightarrow> json_value \<Rightarrow> json_value option \<Rightarrow> thrown" where
  "new_ValidationError f m fld = construct (ToString f m) (\<lambda>s. ValidationError s fld)"

definition new_RateLimitError :: "(rat \<Rightarrow> jsstring) \<Rightarrow> json_value \<Rightarrow> thrown" where
  "new_RateLimitError f retryAfter =
     construct
       (case ToString f retryAfter of
          None \<Rightarrow> None
        | Some s \<Rightarrow> Some (lit ''Rate limit exceeded. Retry after '' @ s @ lit '' seconds''))
       (\<lambda>s. RateLimitError s retryAfter)"

definition new_ServerError :: "(rat \<Rightarrow> jsstring) \<Rightarrow> json_value \<Rightarrow> nat \<Rightarrow> thrown" where
  "new_ServerError f m statusCode = construct (ToString f m) (\<lambda>s. ServerError s statusCode)"

section \<open>The client (client.ts)\<close>

subsection \<open>Construction\<close>

record RailScoreConfig =
  apiKey :: jsstring
  baseUrl :: "jsstring option"
  timeout :: "jsnum option"

record RailScore =
  the_apiKey :: jsstring
  the_baseUrl :: jsstring
  the_timeout :: jsnum

definition new_RailScore :: "RailScoreConfig \<Rightarrow> rail_error + RailScore" where
  "new_RailScore config =
     (if apiKey config = [] then Inl (ValidationError (lit ''API key is required'') None)
      else Inr \<lparr>
        the_apiKey = apiKey config,
        the_baseUrl =
          (case baseUrl config of
             None \<Rightarrow> lit ''https://api.responsibleailabs.ai''
           | Some u \<Rightarrow> if u \<noteq> [] then u else lit ''https://api.responsibleailabs.ai''),
        the_timeout =
          (case timeout config of
             None \<Rightarrow> Fin 60000
           | Some t \<Rightarrow> if number_truthy t then t else Fin 60000)\<rparr>)"

subsection \<open>Classifying an error response: \<open>handleError\<close>\<close>

text \<open>
  A response as \<open>fetch\<close> delivers it. \<open>json\<close> is what \<open>response.json()\<close> settles with: the
  parsed body, or the error it rejects with. \<open>ok\<close> is the getter of the fetch standard.
\<close>

record response =
  status :: nat
  statusText :: jsstring
  json :: "js_error + json_value"

definition ok :: "'a response_scheme \<Rightarrow> bool" where
  "ok r = (200 \<le> status r \<and> status r < 300)"

text \<open>The value of \<open>errorData\<close> once both fallbacks have run (lines 138 to 149).\<close>

definition errorData :: "'a response_scheme \<Rightarrow> json_value" where
  "errorData r =
     (let d = (case json r of
                 Inl e \<Rightarrow> JObj [(lit ''message'', JStr (statusText r))]
               | Inr v \<Rightarrow> v)
      in if \<not> truthy d \<or> typeof d \<noteq> ''object''
         then JObj [(lit ''message'', JStr (statusText r))]
         else d)"

text \<open>\<open>handleError\<close> always throws; the result is what it throws.\<close>

definition handleError :: "(rat \<Rightarrow> jsstring) \<Rightarrow> 'a response_scheme \<Rightarrow> thrown" where
  "handleError f r =
     (let d = errorData r;
          msg = or_else (js_or (get_prop d (lit ''message'')) (get_prop d (lit ''error'')))
                  (JStr (lit ''Unknown error''))
      in if status r = 401 then new_AuthenticationError f msg
         else if status r = 402 then
           new_InsufficientCreditsError f
             (or_else (get_prop d (lit ''balance'')) (JNum (Fin 0)))
             (or_else (get_prop d (lit ''required'')) (JNum (Fin 0)))
         else if status r = 422 then new_ValidationError f msg (get_prop d (lit ''field''))
         else if status r = 429 then
           new_RateLimitError f (or_else (get_prop d (lit ''retry_after'')) (JNum (Fin 60)))
         else if status r \<in> {500, 502, 503, 504} then new_ServerError f msg (status r)
         else
           new_RailScoreError
             (case ToString f msg of
                None \<Rightarrow> None
              | Some s \<Rightarrow>
                  Some (lit ''Request failed with status '' @ digits (status r) @ lit '': '' @ s)))"

subsection \<open>Performing a request: \<open>request\<close>\<close>

text \<open>
  The options a caller passes and the call \<open>fetch\<close> receives. \<open>http_method\<close> is the
  field \<open>method\<close>, and \<open>body\<close> is the value whose JSON text is sent. The \<open>signal\<close> is
  always the one of the request's own controller, whatever the caller passed, and is left out.
\<close>

record request_init =
  http_method :: "jsstring option"
  headers :: "(jsstring \<times> jsstring) list"
  body :: "json_value option"

record call = request_init +
  url :: jsstring

text \<open>
  How \<open>await fetch(url, init)\<close> settles under the timer: with a response, or with the error
  it rejects with. When the timer fires first, the controller aborts and node-fetch rejects
  with an error named \<open>AbortError\<close>.
\<close>

datatype fetch_outcome = Responds response | Rejects js_error

text \<open>The world a request acts on: the calls made to \<open>fetch\<close> so far.\<close>

type_synonym world = "call list"

text \<open>The \<open>catch\<close> block of \<open>request\<close> (lines 108 to 126): what is thrown on to the caller.\<close>

definition catch_block :: "(rat \<Rightarrow> jsstring) \<Rightarrow> RailScore \<Rightarrow> thrown \<Rightarrow> rail_error" where
  "catch_block f this error =
     (case error of
        Rail e \<Rightarrow> e
      | Foreign x \<Rightarrow>
          if name x = lit ''AbortError''
          then TimeoutError
                 (lit ''Request timeout after '' @ Number_toString f (the_timeout this) @ lit ''ms'')
          else NetworkError (lit ''Network request failed: '' @ message x) (Some x))"

text \<open>The arguments of the one call to \<open>fetch\<close> (lines 83 and 90 to 99).\<close>

definition fetch_args :: "RailScore \<Rightarrow> jsstring \<Rightarrow> request_init \<Rightarrow> call" where
  "fetch_args this endpoint options =
     \<lparr>http_method = http_method options,
      headers =
        fold (\<lambda>(k, v). AList.update k v) (headers options)
          [(lit ''Content-Type'', lit ''application/json''),
           (lit ''Authorization'', lit ''Bearer '' @ the_apiKey this),
           (lit ''User-Agent'', lit ''rail-score-js/1.0.0'')],
      body = body options,
      url = the_baseUrl this @ endpoint\<rparr>"

text \<open>
  \<open>request\<close> takes the environment's \<open>fetch\<close> as a function of the call. \<open>Inl\<close> is a
  rejection, \<open>Inr\<close> the value the promise resolves with.
\<close>

definition request ::
  "(rat \<Rightarrow> jsstring) \<Rightarrow> RailScore \<Rightarrow> (call \<Rightarrow> fetch_outcome) \<Rightarrow> jsstring \<Rightarrow> request_init \<Rightarrow> world
     \<Rightarrow> (rail_error + json_value) \<times> world" where
  "request f this fetch endpoint options w =
     (let c = fetch_args this endpoint options
      in ((case fetch c of
             Rejects e \<Rightarrow> Inl (catch_block f this (Foreign e))
           | Responds r \<Rightarrow>
               if \<not> ok r then Inl (catch_block f this (handleError f r))
               else (case json r of
                       Inl e \<Rightarrow> Inl (catch_block f this (Foreign e))
                     | Inr v \<Rightarrow> Inr v)),
          w @ [c]))"

section \<open>Generation (generation.ts)\<close>

datatype Dimension =
    safety | privacy | fairness | transparency | accountability | reliability
  | legal_compliance | user_impact

fun dimension_text :: "Dimension \<Rightarrow> jsstring" where
  "dimension_text safety = lit ''safety''"
| "dimension_text privacy = lit ''privacy''"
| "dimension_text fairness = lit ''fairness''"
| "dimension_text transparency = lit ''transparency''"
| "dimension_text accountability = lit ''accountability''"
| "dimension_text reliability = lit ''reliability''"
| "dimension_text legal_compliance = lit ''legal_compliance''"
| "dimension_text user_impact = lit ''user_impact''"

record GenerationOptions =
  targetScore :: "jsnum option"
  dimensions :: "Dimension list option"
  maxIterations :: "jsnum option"
  temperature :: "jsnum option"

text \<open>
  The object given to \<open>JSON.stringify\<close>, as the value its text denotes: a property that is
  \<open>undefined\<close> is left out, and a number that is not finite is written \<open>null\<close>.
\<close>

definition property :: "string \<Rightarrow> json_value option \<Rightarrow> (jsstring \<times> json_value) list" where
  "property k v = (case v of None \<Rightarrow> [] | Some x \<Rightarrow> [(lit k, x)])"

definition number_json :: "jsnum \<Rightarrow> json_value" where
  "number_json n = (case n of Fin q \<Rightarrow> JNum (Fin q) | NaN \<Rightarrow> JNull | PosInf \<Rightarrow> JNull | NegInf \<Rightarrow> JNull)"

definition generate_body :: "jsstring \<Rightarrow> GenerationOptions option \<Rightarrow> json_value" where
  "generate_body prompt options =
     JObj (property ''prompt'' (Some (JStr prompt))
           @ property ''target_score'' (map_option number_json (Option.bind options targetScore))
           @ property ''dimensions''
               (map_option (\<lambda>ds. JArr (map (\<lambda>d. JStr (dimension_text d)) ds))
                  (Option.bind options dimensions))
           @ property ''max_iterations'' (map_option number_json (Option.bind options maxIterations))
           @ property ''temperature'' (map_option number_json (Option.bind options temperature)))"

text \<open>
  \<open>generate\<close> with the client's \<open>request\<close>. A check that fails throws before \<open>request\<close> is
  called, so the world comes back as it was.
\<close>

definition generate ::
  "(rat \<Rightarrow> jsstring) \<Rightarrow> RailScore \<Rightarrow> (call \<Rightarrow> fetch_outcome) \<Rightarrow> jsstring
     \<Rightarrow> GenerationOptions option \<Rightarrow> world \<Rightarrow> (rail_error + json_value) \<times> world" where
  "generate f client fetch prompt options w =
     (if prompt = [] \<or> length (trim prompt) = 0
      then (Inl (ValidationError (lit ''Prompt cannot be empty'') None), w)
      else if (case Option.bind options targetScore of
                 None \<Rightarrow> False
               | Some t \<Rightarrow> js_lt t (Fin 0) \<or> js_lt (Fin 10) t)
      then (Inl (ValidationError (lit ''Target score must be between 0 and 10'') None), w)
      else if (case Option.bind options maxIterations of
                 None \<Rightarrow> False
               | Some n \<Rightarrow> js_lt n (Fin 1) \<or> js_lt (Fin 10) n)
      then (Inl (ValidationError (lit ''Max iterations must be between 1 and 10'') None), w)
      else if (case Option.bind options temperature of
                 None \<Rightarrow> False
               | Some t \<Rightarrow> js_lt t (Fin 0) \<or> js_lt (Fin 2) t)
      then (Inl (ValidationError (lit ''Temperature must be between 0 and 2'') None), w)
      else request f client fetch (lit ''/v1/generation/generate'')
             \<lparr>http_method = Some (lit ''POST''), headers = [],
              body = Some (generate_body prompt options)\<rparr> w)"

section \<open>Properties\<close>

subsection \<open>Auxiliary facts\<close>

lemmas classify_defs =
  handleError_def errorData_def or_else_def js_or_def construct_def
  new_AuthenticationError_def new_InsufficientCreditsError_def new_ValidationError_def
  new_RateLimitError_def new_ServerError_def new_RailScoreError_def

lemma lit_append: "lit (a @ b) = lit a @ lit b"
  by (simp add: lit_def)

lemma handleError_never_timeout: "handleError f r \<noteq> Rail (TimeoutError m)"
  by (simp add: handleError_def Let_def new_AuthenticationError_def new_InsufficientCreditsError_def
      new_ValidationError_def new_RateLimitError_def new_ServerError_def new_RailScoreError_def
      construct_def split: option.splits)

lemma handleError_foreign: "handleError f r = Foreign x \<Longrightarrow> x = type_error"
  by (simp add: handleError_def Let_def new_AuthenticationError_def new_InsufficientCreditsError_def
      new_ValidationError_def new_RateLimitError_def new_ServerError_def new_RailScoreError_def
      construct_def split: option.splits if_splits)

lemma type_error_name: "name type_error \<noteq> lit ''AbortError''"
  by (simp add: type_error_def lit_def)

lemma errorData_object: "json r = Inr (JObj kvs) \<Longrightarrow> errorData r = JObj kvs"
  by (simp add: errorData_def)

lemma errorData_array: "json r = Inr (JArr xs) \<Longrightarrow> errorData r = JArr xs"
  by (simp add: errorData_def)

lemma errorData_rejected:
  "json r = Inl e \<Longrightarrow> errorData r = JObj [(lit ''message'', JStr (statusText r))]"
  by (simp add: errorData_def)

lemma errorData_primitive:
  "json r = Inr v \<Longrightarrow> v = JNull \<or> (\<exists>b. v = JBool b) \<or> (\<exists>n. v = JNum n) \<or> (\<exists>s. v = JStr s)
     \<Longrightarrow> errorData r = JObj [(lit ''message'', JStr (statusText r))]"
  by (auto simp add: errorData_def)

lemma handleError_cong:
  fixes r1 :: "'a response_scheme" and r2 :: "'b response_scheme"
  assumes "status r1 = status r2" and "errorData r1 = errorData r2"
  shows "handleError f r1 = handleError f r2"
  unfolding handleError_def assms by (rule refl)

lemma get_prop_array: "get_prop (JArr xs) k = get_prop (JObj []) k"
  by simp

lemma handleError_array_as_empty:
  assumes "json r = Inr (JArr xs)"
  shows "handleError f r = handleError f (r\<lparr>json := Inr (JObj [])\<rparr>)"
proof -
  have a: "errorData r = JArr xs"
    using assms by (rule errorData_array)
  have b: "errorData (r\<lparr>json := Inr (JObj [])\<rparr>) = JObj []"
    by (simp add: errorData_object)
  have c: "status (r\<lparr>json := Inr (JObj [])\<rparr>) = status r"
    by simp
  show ?thesis
    by (simp only: handleError_def a b c Let_def get_prop_array)
qed

text \<open>\<open>handleError\<close> throws one of the client's errors, or the TypeError of a conversion.\<close>

lemma handleError_classifies_or_fails:
  "(\<exists>e. handleError f r = Rail e) \<or> handleError f r = Foreign type_error"
  by (cases "handleError f r") (auto dest: handleError_foreign)

lemma ToString_primitive:
  "v = JNull \<or> typeof v \<noteq> ''object'' \<Longrightarrow> \<exists>s. ToString f v = Some s"
  by (cases v) simp_all

text \<open>Where every conversion to a string succeeds, the class is decided by the status alone.\<close>

lemma handleError_dispatch:
  assumes "msg = or_else (js_or (get_prop (errorData r) (lit ''message''))
                            (get_prop (errorData r) (lit ''error'')))
                   (JStr (lit ''Unknown error''))"
    and "ToString f msg = Some s"
  shows "status r = 401 \<Longrightarrow> handleError f r = Rail (AuthenticationError s)"
    and "status r = 422 \<Longrightarrow>
           handleError f r = Rail (ValidationError s (get_prop (errorData r) (lit ''field'')))"
    and "status r \<in> {500, 502, 503, 504} \<Longrightarrow> handleError f r = Rail (ServerError s (status r))"
    and "status r \<notin> {401, 402, 422, 429, 500, 502, 503, 504} \<Longrightarrow>
           handleError f r
             = Rail (RailScoreError
                       (lit ''Request failed with status '' @ digits (status r) @ lit '': '' @ s))"
  using assms
  by (auto simp add: handleError_def Let_def new_AuthenticationError_def new_ValidationError_def
      new_ServerError_def new_RailScoreError_def construct_def)

lemma handleError_dispatch_402:
  assumes "status r = 402"
    and "balance = or_else (get_prop (errorData r) (lit ''balance'')) (JNum (Fin 0))"
    and "required = or_else (get_prop (errorData r) (lit ''required'')) (JNum (Fin 0))"
    and "ToString f balance = Some b" and "ToString f required = Some q"
  shows "handleError f r
           = Rail (InsufficientCreditsError
                     (lit ''Insufficient credits. Balance: '' @ b @ lit '', Required: '' @ q)
                     balance required)"
  using assms
  by (simp add: handleError_def Let_def new_InsufficientCreditsError_def construct_def)

text \<open>The \<open>catch\<close> block and the three ways through \<open>request\<close>.\<close>

lemma catch_block_rail: "catch_block f this (Rail e) = e"
  by (simp add: catch_block_def)

lemma catch_block_foreign:
  "name x \<noteq> lit ''AbortError'' \<Longrightarrow>
     catch_block f this (Foreign x)
       = NetworkError (lit ''Network request failed: '' @ message x) (Some x)"
  by (simp add: catch_block_def)

lemma catch_block_timeout:
  "catch_block f this t = TimeoutError m \<Longrightarrow>
     t = Rail (TimeoutError m) \<or> (\<exists>x. t = Foreign x \<and> name x = lit ''AbortError'')"
  by (cases t) (auto simp add: catch_block_def split: if_splits)

lemma catch_block_handleError_not_timeout: "catch_block f this (handleError f r) \<noteq> TimeoutError m"
proof
  assume "catch_block f this (handleError f r) = TimeoutError m"
  then have "handleError f r = Rail (TimeoutError m)
               \<or> (\<exists>x. handleError f r = Foreign x \<and> name x = lit ''AbortError'')"
    by (rule catch_block_timeout)
  then show False
    using handleError_never_timeout [of f r m] handleError_foreign [of f r] type_error_name
    by auto
qed

lemma request_world: "snd (request f this fetch endpoint options w) = w @ [fetch_args this endpoint options]"
  by (simp add: request_def Let_def)

lemma request_rejected:
  "fetch (fetch_args this endpoint options) = Rejects e \<Longrightarrow>
     fst (request f this fetch endpoint options w) = Inl (catch_block f this (Foreign e))"
  by (simp add: request_def Let_def)

lemma request_not_ok:
  "fetch (fetch_args this endpoint options) = Responds r \<Longrightarrow> \<not> ok r \<Longrightarrow>
     fst (request f this fetch endpoint options w) = Inl (catch_block f this (handleError f r))"
  by (simp add: request_def Let_def)

lemma request_ok:
  "fetch (fetch_args this endpoint options) = Responds r \<Longrightarrow> ok r \<Longrightarrow>
     fst (request f this fetch endpoint options w)
       = (case json r of Inl e \<Rightarrow> Inl (catch_block f this (Foreign e)) | Inr v \<Rightarrow> Inr v)"
  by (simp add: request_def Let_def)

lemma request_resolves_only_ok:
  assumes "fst (request f this fetch endpoint options w) = Inr v"
  shows "\<exists>r. fetch (fetch_args this endpoint options) = Responds r \<and> ok r \<and> json r = Inr v"
proof (cases "fetch (fetch_args this endpoint options)")
  case (Rejects e)
  then show ?thesis
    using assms by (simp add: request_rejected)
next
  case (Responds r)
  show ?thesis
  proof (cases "ok r")
    case False
    then show ?thesis
      using assms Responds by (simp add: request_not_ok)
  next
    case True
    then show ?thesis
      using assms Responds by (simp add: request_ok split: sum.splits)
  qed
qed

lemma request_rethrows_classified:
  "fetch (fetch_args this endpoint options) = Responds r \<Longrightarrow> \<not> ok r \<Longrightarrow>
     handleError f r = Rail e \<Longrightarrow> fst (request f this fetch endpoint options w) = Inl e"
  by (simp add: request_not_ok catch_block_rail)

text \<open>The checks of \<open>generate\<close>, in the words of the interval bounds.\<close>

lemma trim_Nil_iff: "trim s = [] \<longleftrightarrow> (\<forall>u\<in>set s. is_ws u)"
proof
  assume "trim s = []"
  then have all: "\<forall>u\<in>set (dropWhile is_ws s). is_ws u"
    by (simp add: trim_def dropWhile_eq_Nil_conv)
  have "dropWhile is_ws s = []"
  proof (rule ccontr)
    assume ne: "dropWhile is_ws s \<noteq> []"
    then have "\<not> is_ws (hd (dropWhile is_ws s))"
      by (rule hd_dropWhile)
    moreover have "hd (dropWhile is_ws s) \<in> set (dropWhile is_ws s)"
      using ne by (rule hd_in_set)
    ultimately show False
      using all by blast
  qed
  then show "\<forall>u\<in>set s. is_ws u"
    by (simp add: dropWhile_eq_Nil_conv)
next
  assume "\<forall>u\<in>set s. is_ws u"
  then show "trim s = []"
    by (auto simp add: trim_def dest: set_dropWhileD)
qed

lemma prompt_check: "(prompt = [] \<or> length (trim prompt) = 0) \<longleftrightarrow> (\<forall>u\<in>set prompt. is_ws u)"
  using trim_Nil_iff [of prompt] by auto

lemma range_check:
  "(case x of None \<Rightarrow> False | Some t \<Rightarrow> js_lt t lo \<or> js_lt hi t)
     \<longleftrightarrow> (\<exists>t. x = Some t \<and> (js_lt t lo \<or> js_lt hi t))"
  by (cases x) simp_all

subsection \<open>The classifier is a function of the response\<close>

text \<open>
  C9, as the code has it. \<open>handleError\<close> is a pure function of the status, the body and the
  status text: two responses that agree on the three are classified to equal errors (same
  class, same message, same fields), whatever else the response objects hold. When the body
  parses to an object or an array the status text is not read, and the same status and body
  are enough. \<open>handleError\<close> takes no world and returns none: it makes no call.
\<close>

theorem handleError_function_of_response:
  fixes r1 :: "'a response_scheme" and r2 :: "'b response_scheme"
  assumes "status r1 = status r2" and "json r1 = json r2"
  shows "(statusText r1 = statusText r2 \<longrightarrow> handleError f r1 = handleError f r2)
       \<and> ((\<exists>kvs. json r1 = Inr (JObj kvs)) \<or> (\<exists>xs. json r1 = Inr (JArr xs))
            \<longrightarrow> handleError f r1 = handleError f r2)"
proof (intro conjI impI)
  assume t: "statusText r1 = statusText r2"
  have "errorData r1 = errorData r2"
    unfolding errorData_def t assms(2) by (rule refl)
  with assms(1) show "handleError f r1 = handleError f r2"
    by (rule handleError_cong)
next
  assume "(\<exists>kvs. json r1 = Inr (JObj kvs)) \<or> (\<exists>xs. json r1 = Inr (JArr xs))"
  then have "errorData r1 = errorData r2"
  proof
    assume "\<exists>kvs. json r1 = Inr (JObj kvs)"
    then obtain kvs where k: "json r1 = Inr (JObj kvs)" ..
    then have "json r2 = Inr (JObj kvs)"
      using assms(2) by simp
    with k show ?thesis
      by (simp add: errorData_object)
  next
    assume "\<exists>xs. json r1 = Inr (JArr xs)"
    then obtain xs where k: "json r1 = Inr (JArr xs)" ..
    then have "json r2 = Inr (JArr xs)"
      using assms(2) by simp
    with k show ?thesis
      by (simp add: errorData_array)
  qed
  with assms(1) show "handleError f r1 = handleError f r2"
    by (rule handleError_cong)
qed

theorem handleError_function_of_response_witness:
  "handleError (\<lambda>q. [])
     \<lparr>status = 429, statusText = lit ''Too Many Requests'',
      json = Inr (JObj [(lit ''retry_after'', JNum (Fin 30))])\<rparr>
   = handleError (\<lambda>q. [])
     \<lparr>status = 429, statusText = lit ''Too Many Requests'',
      json = Inr (JObj [(lit ''retry_after'', JNum (Fin 30))]),
      \<dots> = lit ''https://api.responsibleailabs.ai/v1/credits''\<rparr>
   \<and> handleError (\<lambda>q. [])
     \<lparr>status = 500, statusText = lit ''Internal Server Error'', json = Inr (JObj [])\<rparr>
   = handleError (\<lambda>q. [])
     \<lparr>status = 500, statusText = lit ''Error'', json = Inr (JObj [])\<rparr>"
  using handleError_function_of_response
    [of "\<lparr>status = 429, statusText = lit ''Too Many Requests'',
          json = Inr (JObj [(lit ''retry_after'', JNum (Fin 30))])\<rparr>"
        "\<lparr>status = 429, statusText = lit ''Too Many Requests'',
          json = Inr (JObj [(lit ''retry_after'', JNum (Fin 30))]),
          \<dots> = lit ''https://api.responsibleailabs.ai/v1/credits''\<rparr>" "\<lambda>q. []"]
    handleError_function_of_response
    [of "\<lparr>status = 500, statusText = lit ''Internal Server Error'', json = Inr (JObj [])\<rparr>"
        "\<lparr>status = 500, statusText = lit ''Error'', json = Inr (JObj [])\<rparr>" "\<lambda>q. []"]
  by simp

text \<open>
  C9 as stated has the status and the body decide the error. On status 500 with the body
  \<open>null\<close> the message is the status text, so two responses with different status texts are
  classified to different errors.
\<close>

theorem status_text_counterexample:
  "handleError (\<lambda>q. [])
     \<lparr>status = 500, statusText = lit ''Internal Server Error'', json = Inr JNull\<rparr>
     = Rail (ServerError (lit ''Internal Server Error'') 500)
   \<and> handleError (\<lambda>q. []) \<lparr>status = 500, statusText = lit ''Error'', json = Inr JNull\<rparr>
     = Rail (ServerError (lit ''Error'') 500)
   \<and> handleError (\<lambda>q. [])
       \<lparr>status = 500, statusText = lit ''Internal Server Error'', json = Inr JNull\<rparr>
     \<noteq> handleError (\<lambda>q. []) \<lparr>status = 500, statusText = lit ''Error'', json = Inr JNull\<rparr>"
  by (simp add: classify_defs new_ServerError_def lit_def)

subsection \<open>Construction\<close>

text \<open>
  C10. The constructor defaults by falsiness, not by absence: a \<open>timeout\<close> of \<open>0\<close> and a
  \<open>baseUrl\<close> that is the empty string give the client that leaving the field out gives, with
  the timeout \<open>60000\<close> and the production base URL.
\<close>

theorem constructor_defaults_by_falsiness:
  "new_RailScore (config\<lparr>timeout := Some (Fin 0)\<rparr>) = new_RailScore (config\<lparr>timeout := None\<rparr>)
   \<and> new_RailScore (config\<lparr>baseUrl := Some []\<rparr>) = new_RailScore (config\<lparr>baseUrl := None\<rparr>)
   \<and> (apiKey config \<noteq> [] \<longrightarrow>
        (\<exists>c. new_RailScore (config\<lparr>timeout := Some (Fin 0)\<rparr>) = Inr c \<and> the_timeout c = Fin 60000)
      \<and> (\<exists>c. new_RailScore (config\<lparr>baseUrl := Some []\<rparr>) = Inr c
              \<and> the_baseUrl c = lit ''https://api.responsibleailabs.ai''))"
  by (simp add: new_RailScore_def number_truthy_def)

theorem constructor_defaults_by_falsiness_witness:
  "new_RailScore \<lparr>apiKey = lit ''test-key'', baseUrl = Some [], timeout = Some (Fin 0)\<rparr>
   = Inr \<lparr>the_apiKey = lit ''test-key'', the_baseUrl = lit ''https://api.responsibleailabs.ai'',
          the_timeout = Fin 60000\<rparr>
   \<and> new_RailScore \<lparr>apiKey = lit ''test-key'', baseUrl = Some [], timeout = Some (Fin 0)\<rparr>
   = new_RailScore \<lparr>apiKey = lit ''test-key'', baseUrl = Some [], timeout = None\<rparr>"
  using constructor_defaults_by_falsiness
    [of "\<lparr>apiKey = lit ''test-key'', baseUrl = Some [], timeout = Some (Fin 0)\<rparr>"]
  by (simp add: new_RailScore_def number_truthy_def lit_def)

text \<open>
  C7, as the code has it. With an empty \<open>apiKey\<close> the constructor throws, at construction,
  a \<open>ValidationError\<close> with the message \<open>API key is required\<close>; with a non-empty one it
  does not throw. There is no class for configuration errors in errors.ts.
\<close>

theorem constructor_requires_api_key:
  "(apiKey config = [] \<longrightarrow>
      new_RailScore config = Inl (ValidationError (lit ''API key is required'') None))
   \<and> (apiKey config \<noteq> [] \<longrightarrow> (\<exists>c. new_RailScore config = Inr c \<and> the_apiKey c = apiKey config))"
  by (simp add: new_RailScore_def)

theorem constructor_requires_api_key_witness:
  "new_RailScore \<lparr>apiKey = [], baseUrl = None, timeout = None\<rparr>
     = Inl (ValidationError (lit ''API key is required'') None)
   \<and> (\<exists>c. new_RailScore \<lparr>apiKey = lit ''test-api-key'', baseUrl = None, timeout = None\<rparr> = Inr c
          \<and> the_apiKey c = lit ''test-api-key'')"
  using constructor_requires_api_key [of "\<lparr>apiKey = [], baseUrl = None, timeout = None\<rparr>"]
    constructor_requires_api_key [of "\<lparr>apiKey = lit ''test-api-key'', baseUrl = None, timeout = None\<rparr>"]
  by (simp add: lit_def)

text \<open>
  C7 as stated asks for an error kind of its own, apart from the kinds raised during a call.
  The error of the constructor has the class of the error a call raises on status 422.
\<close>

theorem configuration_error_counterexample:
  "new_RailScore \<lparr>apiKey = [], baseUrl = None, timeout = None\<rparr>
     = Inl (ValidationError (lit ''API key is required'') None)
   \<and> handleError (\<lambda>q. [])
       \<lparr>status = 422, statusText = lit ''Unprocessable Entity'',
        json = Inr (JObj [(lit ''message'', JStr (lit ''Invalid content'')),
                          (lit ''field'', JStr (lit ''content''))])\<rparr>
     = Rail (ValidationError (lit ''Invalid content'') (Some (JStr (lit ''content''))))
   \<and> error_name (ValidationError (lit ''API key is required'') None)
     = error_name (ValidationError (lit ''Invalid content'') (Some (JStr (lit ''content''))))"
  by (simp add: new_RailScore_def classify_defs lit_def)

subsection \<open>The envelope\<close>

text \<open>
  C4, as the code has it. When \<open>json()\<close> rejects, or resolves with \<open>null\<close>, a boolean, a
  number or a string, the classifier reads its fields from \<open>{message: statusText}\<close>: the
  error is the one of a response with that body. An object is kept, and so is an array: no
  field is read from an array, which is classified as the empty object is.
\<close>

theorem errorData_substitution:
  "((\<exists>e. json r = Inl e) \<or> json r = Inr JNull \<or> (\<exists>b. json r = Inr (JBool b))
      \<or> (\<exists>n. json r = Inr (JNum n)) \<or> (\<exists>s. json r = Inr (JStr s))
     \<longrightarrow> errorData r = JObj [(lit ''message'', JStr (statusText r))]
         \<and> handleError f r
           = handleError f (r\<lparr>json := Inr (JObj [(lit ''message'', JStr (statusText r))])\<rparr>))
   \<and> (\<forall>kvs. json r = Inr (JObj kvs) \<longrightarrow> errorData r = JObj kvs)
   \<and> (\<forall>xs. json r = Inr (JArr xs) \<longrightarrow>
         errorData r = JArr xs \<and> handleError f r = handleError f (r\<lparr>json := Inr (JObj [])\<rparr>))"
proof (intro conjI impI allI)
  assume a: "(\<exists>e. json r = Inl e) \<or> json r = Inr JNull \<or> (\<exists>b. json r = Inr (JBool b))
      \<or> (\<exists>n. json r = Inr (JNum n)) \<or> (\<exists>s. json r = Inr (JStr s))"
  then show d: "errorData r = JObj [(lit ''message'', JStr (statusText r))]"
    using errorData_rejected [of r] errorData_primitive [of r] by blast
  show "handleError f r
           = handleError f (r\<lparr>json := Inr (JObj [(lit ''message'', JStr (statusText r))])\<rparr>)"
    by (rule handleError_cong) (simp_all add: d errorData_object)
next
  fix kvs assume "json r = Inr (JObj kvs)"
  then show "errorData r = JObj kvs" by (rule errorData_object)
next
  fix xs assume "json r = Inr (JArr xs)"
  then show "errorData r = JArr xs" by (rule errorData_array)
next
  fix xs assume "json r = Inr (JArr xs)"
  then show "handleError f r = handleError f (r\<lparr>json := Inr (JObj [])\<rparr>)"
    by (rule handleError_array_as_empty)
qed

theorem errorData_substitution_witness:
  "errorData \<lparr>status = 500, statusText = lit ''Internal Server Error'', json = Inr JNull\<rparr>
     = JObj [(lit ''message'', JStr (lit ''Internal Server Error''))]
   \<and> handleError (\<lambda>q. [])
       \<lparr>status = 500, statusText = lit ''Internal Server Error'', json = Inr JNull\<rparr>
     = Rail (ServerError (lit ''Internal Server Error'') 500)
   \<and> errorData \<lparr>status = 500, statusText = lit ''Internal Server Error'', json = Inr (JArr [])\<rparr>
     = JArr []"
  using errorData_substitution
    [of "\<lparr>status = 500, statusText = lit ''Internal Server Error'', json = Inr JNull\<rparr>" "\<lambda>q. []"]
    errorData_substitution
    [of "\<lparr>status = 500, statusText = lit ''Internal Server Error'', json = Inr (JArr [])\<rparr>" "\<lambda>q. []"]
  by (simp add: classify_defs lit_def)

text \<open>
  C4 as stated has an array replaced by \<open>{message: statusText}\<close>. On status 401 with the
  body \<open>[]\<close> the message is \<open>Unknown error\<close>, not the status text.
\<close>

theorem array_body_counterexample:
  "handleError (\<lambda>q. []) \<lparr>status = 401, statusText = lit ''Unauthorized'', json = Inr (JArr [])\<rparr>
     = Rail (AuthenticationError (lit ''Unknown error''))
   \<and> handleError (\<lambda>q. [])
       \<lparr>status = 401, statusText = lit ''Unauthorized'',
        json = Inr (JObj [(lit ''message'', JStr (lit ''Unauthorized''))])\<rparr>
     = Rail (AuthenticationError (lit ''Unauthorized''))
   \<and> lit ''Unknown error'' \<noteq> lit ''Unauthorized''"
  by (simp add: classify_defs lit_def)

subsection \<open>Rate limits\<close>

text \<open>
  C5, as the code has it. On status 429 \<open>retryAfter\<close> is \<open>errorData.retry_after || 60\<close>: a
  \<open>retry_after\<close> that is present, truthy and has a string conversion is kept as it is, and
  every truthy number, string and boolean has one; an absent or falsy \<open>retry_after\<close>
  (\<open>0\<close>, \<open>null\<close>, \<open>false\<close>, the empty string) gives \<open>60\<close>. Nothing is said of a truthy
  \<open>retry_after\<close> that has no string conversion.
\<close>

theorem retry_after_or_60:
  assumes "status r = 429"
  shows "(\<forall>v. get_prop (errorData r) (lit ''retry_after'') = Some v \<longrightarrow> truthy v \<longrightarrow>
            (\<forall>s. ToString f v = Some s \<longrightarrow>
               handleError f r
                 = Rail (RateLimitError
                           (lit ''Rate limit exceeded. Retry after '' @ s @ lit '' seconds'') v))
          \<and> (typeof v \<noteq> ''object'' \<longrightarrow>
               (\<exists>s. ToString f v = Some s
                    \<and> handleError f r
                      = Rail (RateLimitError
                                (lit ''Rate limit exceeded. Retry after '' @ s @ lit '' seconds'')
                                v))))
       \<and> (get_prop (errorData r) (lit ''retry_after'') = None
            \<or> (\<exists>v. get_prop (errorData r) (lit ''retry_after'') = Some v \<and> \<not> truthy v)
          \<longrightarrow> handleError f r
              = Rail (RateLimitError (lit ''Rate limit exceeded. Retry after 60 seconds'')
                        (JNum (Fin 60))))"
proof -
  have sixty: "Number_toString f (Fin 60) = lit ''60''"
    by (simp add: Number_toString_def digits.simps lit_def)
  have msg60: "lit ''Rate limit exceeded. Retry after '' @ lit ''60'' @ lit '' seconds''
                = lit ''Rate limit exceeded. Retry after 60 seconds''"
    by (simp add: lit_def)
  have absent: "or_else None (JNum (Fin 60)) = JNum (Fin 60)"
    by (simp add: or_else_def)
  have falsy: "\<And>v. \<not> truthy v \<Longrightarrow> or_else (Some v) (JNum (Fin 60)) = JNum (Fin 60)"
    by (simp add: or_else_def)
  have kept: "\<And>v. truthy v \<Longrightarrow> or_else (Some v) (JNum (Fin 60)) = v"
    by (simp add: or_else_def)
  have h: "handleError f r
             = new_RateLimitError f
                 (or_else (get_prop (errorData r) (lit ''retry_after'')) (JNum (Fin 60)))"
    using assms by (simp add: handleError_def)
  have sixty_error:
    "new_RateLimitError f (JNum (Fin 60))
       = Rail (RateLimitError (lit ''Rate limit exceeded. Retry after 60 seconds'') (JNum (Fin 60)))"
    by (simp add: new_RateLimitError_def construct_def sixty msg60)
  have converted:
    "\<And>v s. get_prop (errorData r) (lit ''retry_after'') = Some v \<Longrightarrow> truthy v
        \<Longrightarrow> ToString f v = Some s
        \<Longrightarrow> handleError f r
              = Rail (RateLimitError
                        (lit ''Rate limit exceeded. Retry after '' @ s @ lit '' seconds'') v)"
    by (simp add: h kept new_RateLimitError_def construct_def)
  show ?thesis
  proof (intro conjI allI impI)
    fix v s
    assume "get_prop (errorData r) (lit ''retry_after'') = Some v" "truthy v" "ToString f v = Some s"
    then show "handleError f r
                 = Rail (RateLimitError
                           (lit ''Rate limit exceeded. Retry after '' @ s @ lit '' seconds'') v)"
      by (rule converted)
  next
    fix v
    assume p: "get_prop (errorData r) (lit ''retry_after'') = Some v" and t: "truthy v"
      and prim: "typeof v \<noteq> ''object''"
    from prim obtain s where s: "ToString f v = Some s"
      using ToString_primitive [of v f] by blast
    with p t have "handleError f r
                 = Rail (RateLimitError
                           (lit ''Rate limit exceeded. Retry after '' @ s @ lit '' seconds'') v)"
      by (rule converted)
    with s show "\<exists>s. ToString f v = Some s
                    \<and> handleError f r
                      = Rail (RateLimitError
                                (lit ''Rate limit exceeded. Retry after '' @ s @ lit '' seconds'')
                                v)"
      by blast
  next
    assume "get_prop (errorData r) (lit ''retry_after'') = None
            \<or> (\<exists>v. get_prop (errorData r) (lit ''retry_after'') = Some v \<and> \<not> truthy v)"
    then have "or_else (get_prop (errorData r) (lit ''retry_after'')) (JNum (Fin 60)) = JNum (Fin 60)"
      using absent falsy by auto
    then show "handleError f r
                 = Rail (RateLimitError (lit ''Rate limit exceeded. Retry after 60 seconds'')
                           (JNum (Fin 60)))"
      by (simp add: h sixty_error)
  qed
qed

theorem retry_after_or_60_witness:
  "handleError (\<lambda>q. [])
     \<lparr>status = 429, statusText = lit ''Too Many Requests'',
      json = Inr (JObj [(lit ''retry_after'', JNum (Fin 30))])\<rparr>
   = Rail (RateLimitError (lit ''Rate limit exceeded. Retry after 30 seconds'') (JNum (Fin 30)))
   \<and> handleError (\<lambda>q. [])
     \<lparr>status = 429, statusText = lit ''Too Many Requests'', json = Inr (JObj [])\<rparr>
   = Rail (RateLimitError (lit ''Rate limit exceeded. Retry after 60 seconds'') (JNum (Fin 60)))"
  using retry_after_or_60
    [of "\<lparr>status = 429, statusText = lit ''Too Many Requests'',
          json = Inr (JObj [(lit ''retry_after'', JNum (Fin 30))])\<rparr>" "\<lambda>q. []"]
    retry_after_or_60
    [of "\<lparr>status = 429, statusText = lit ''Too Many Requests'', json = Inr (JObj [])\<rparr>" "\<lambda>q. []"]
  by (simp add: errorData_def Number_toString_def digits.simps number_truthy_def lit_def)

text \<open>
  C5 as stated keeps every \<open>retry_after\<close> that is present. For \<open>0\<close> the code answers
  \<open>60\<close>, and for \<open>{"toString": 1}\<close> the message of the error cannot be built.
\<close>

theorem retry_after_counterexample:
  "handleError (\<lambda>q. [])
     \<lparr>status = 429, statusText = lit ''Too Many Requests'',
      json = Inr (JObj [(lit ''retry_after'', JNum (Fin 0))])\<rparr>
   = Rail (RateLimitError (lit ''Rate limit exceeded. Retry after 60 seconds'') (JNum (Fin 60)))
   \<and> handleError (\<lambda>q. [])
     \<lparr>status = 429, statusText = lit ''Too Many Requests'',
      json = Inr (JObj [(lit ''retry_after'', JObj [(lit ''toString'', JNum (Fin 1))])])\<rparr>
   = Foreign type_error"
  by (simp add: classify_defs Number_toString_def digits.simps number_truthy_def lit_def)

subsection \<open>Transport failures and timeouts\<close>

text \<open>
  C6. When \<open>fetch\<close> rejects with an error that is not the abort of the timer (its name is not
  \<open>AbortError\<close>), \<open>request\<close> throws a \<open>NetworkError\<close> that holds this error as
  \<open>originalError\<close>, not a \<open>TimeoutError\<close>. A \<open>TimeoutError\<close> is thrown only when a
  rejection named \<open>AbortError\<close> reached the \<open>catch\<close> block, which is how the abort of the
  controller arrives.
\<close>

theorem transport_failure_is_network_error:
  "(fetch (fetch_args this endpoint options) = Rejects e \<and> name e \<noteq> lit ''AbortError''
      \<longrightarrow> fst (request f this fetch endpoint options w)
          = Inl (NetworkError (lit ''Network request failed: '' @ message e) (Some e)))
   \<and> (\<forall>m. fst (request f this fetch endpoint options w) = Inl (TimeoutError m)
      \<longrightarrow> (\<exists>x. name x = lit ''AbortError''
               \<and> (fetch (fetch_args this endpoint options) = Rejects x
                  \<or> (\<exists>r. fetch (fetch_args this endpoint options) = Responds r \<and> ok r
                         \<and> json r = Inl x))))"
proof (intro conjI impI allI)
  assume "fetch (fetch_args this endpoint options) = Rejects e \<and> name e \<noteq> lit ''AbortError''"
  then show "fst (request f this fetch endpoint options w)
               = Inl (NetworkError (lit ''Network request failed: '' @ message e) (Some e))"
    by (simp add: request_rejected catch_block_foreign)
next
  fix m
  assume t: "fst (request f this fetch endpoint options w) = Inl (TimeoutError m)"
  show "\<exists>x. name x = lit ''AbortError''
               \<and> (fetch (fetch_args this endpoint options) = Rejects x
                  \<or> (\<exists>r. fetch (fetch_args this endpoint options) = Responds r \<and> ok r
                         \<and> json r = Inl x))"
  proof (cases "fetch (fetch_args this endpoint options)")
    case (Rejects x)
    then have "catch_block f this (Foreign x) = TimeoutError m"
      using t by (simp add: request_rejected)
    then have "name x = lit ''AbortError''"
      by (auto dest: catch_block_timeout)
    then show ?thesis
      using Rejects by blast
  next
    case (Responds r)
    show ?thesis
    proof (cases "ok r")
      case False
      then have "catch_block f this (handleError f r) = TimeoutError m"
        using t Responds by (simp add: request_not_ok)
      then show ?thesis
        by (simp add: catch_block_handleError_not_timeout)
    next
      case True
      then have c: "(case json r of Inl e \<Rightarrow> Inl (catch_block f this (Foreign e)) | Inr v \<Rightarrow> Inr v)
                     = Inl (TimeoutError m)"
        using t Responds by (simp add: request_ok)
      then obtain x where x: "json r = Inl x" and "catch_block f this (Foreign x) = TimeoutError m"
        by (cases "json r") simp_all
      then have "name x = lit ''AbortError''"
        by (auto dest: catch_block_timeout)
      then show ?thesis
        using Responds True x by blast
    qed
  qed
qed

theorem transport_failure_is_network_error_witness:
  "fst (request (\<lambda>q. [])
     \<lparr>the_apiKey = lit ''test-api-key'', the_baseUrl = lit ''https://api.responsibleailabs.ai'',
      the_timeout = Fin 60000\<rparr>
     (\<lambda>c. Rejects \<lparr>name = lit ''Error'', message = lit ''Network connection failed''\<rparr>)
     (lit ''/v1/credits'') \<lparr>http_method = Some (lit ''GET''), headers = [], body = None\<rparr> [])
   = Inl (NetworkError (lit ''Network request failed: Network connection failed'')
            (Some \<lparr>name = lit ''Error'', message = lit ''Network connection failed''\<rparr>))
   \<and> fst (request (\<lambda>q. [])
     \<lparr>the_apiKey = lit ''test-api-key'', the_baseUrl = lit ''https://api.responsibleailabs.ai'',
      the_timeout = Fin 60000\<rparr>
     (\<lambda>c. Rejects \<lparr>name = lit ''AbortError'', message = lit ''The operation was aborted''\<rparr>)
     (lit ''/v1/credits'') \<lparr>http_method = Some (lit ''GET''), headers = [], body = None\<rparr> [])
   = Inl (TimeoutError (lit ''Request timeout after 60000ms''))"
  using transport_failure_is_network_error
    [of "\<lambda>c. Rejects \<lparr>name = lit ''Error'', message = lit ''Network connection failed''\<rparr>"
        "\<lparr>the_apiKey = lit ''test-api-key'', the_baseUrl = lit ''https://api.responsibleailabs.ai'',
          the_timeout = Fin 60000\<rparr>"
        "lit ''/v1/credits''" "\<lparr>http_method = Some (lit ''GET''), headers = [], body = None\<rparr>"
        "\<lparr>name = lit ''Error'', message = lit ''Network connection failed''\<rparr>" "\<lambda>q. []" "[]"]
    transport_failure_is_network_error
    [of "\<lambda>c. Rejects \<lparr>name = lit ''AbortError'', message = lit ''The operation was aborted''\<rparr>"
        "\<lparr>the_apiKey = lit ''test-api-key'', the_baseUrl = lit ''https://api.responsibleailabs.ai'',
          the_timeout = Fin 60000\<rparr>"
        "lit ''/v1/credits''" "\<lparr>http_method = Some (lit ''GET''), headers = [], body = None\<rparr>"
        "\<lparr>name = lit ''Error'', message = lit ''Network connection failed''\<rparr>" "\<lambda>q. []" "[]"]
  by (simp add: request_def catch_block_def Number_toString_def digits.simps Let_def lit_def)

subsection \<open>Responses with a 2xx status\<close>

text \<open>
  C3, as the code has it. On a 2xx response whose body parses, \<open>request\<close> resolves with the
  parsed value, unchanged. When \<open>json()\<close> rejects (the failure of a parse is never named
  \<open>AbortError\<close>), \<open>request\<close> throws a \<open>NetworkError\<close> that wraps the failure.
\<close>

theorem success_response_result:
  assumes "fetch (fetch_args this endpoint options) = Responds r" and "ok r"
  shows "(\<forall>v. json r = Inr v \<longrightarrow> fst (request f this fetch endpoint options w) = Inr v)
       \<and> (\<forall>e. json r = Inl e \<longrightarrow> name e \<noteq> lit ''AbortError''
            \<longrightarrow> fst (request f this fetch endpoint options w)
                = Inl (NetworkError (lit ''Network request failed: '' @ message e) (Some e)))"
  using assms by (simp add: request_ok catch_block_foreign)

theorem success_response_result_witness:
  "fst (request (\<lambda>q. [])
     \<lparr>the_apiKey = lit ''test-api-key'', the_baseUrl = lit ''https://api.responsibleailabs.ai'',
      the_timeout = Fin 60000\<rparr>
     (\<lambda>c. Responds \<lparr>status = 200, statusText = lit ''OK'',
                     json = Inr (JObj [(lit ''ok'', JBool True),
                                       (lit ''version'', JStr (lit ''1.0.0''))])\<rparr>)
     (lit ''/health'') \<lparr>http_method = Some (lit ''GET''), headers = [], body = None\<rparr> [])
   = Inr (JObj [(lit ''ok'', JBool True), (lit ''version'', JStr (lit ''1.0.0''))])
   \<and> fst (request (\<lambda>q. [])
     \<lparr>the_apiKey = lit ''test-api-key'', the_baseUrl = lit ''https://api.responsibleailabs.ai'',
      the_timeout = Fin 60000\<rparr>
     (\<lambda>c. Responds \<lparr>status = 204, statusText = lit ''No Content'',
                     json = Inl \<lparr>name = lit ''FetchError'',
                                 message = lit ''Unexpected end of JSON input''\<rparr>\<rparr>)
     (lit ''/health'') \<lparr>http_method = Some (lit ''GET''), headers = [], body = None\<rparr> [])
   = Inl (NetworkError (lit ''Network request failed: '' @ lit ''Unexpected end of JSON input'')
            (Some \<lparr>name = lit ''FetchError'', message = lit ''Unexpected end of JSON input''\<rparr>))"
  using success_response_result
    [of "\<lambda>c. Responds \<lparr>status = 200, statusText = lit ''OK'',
                     json = Inr (JObj [(lit ''ok'', JBool True),
                                       (lit ''version'', JStr (lit ''1.0.0''))])\<rparr>"
        "\<lparr>the_apiKey = lit ''test-api-key'', the_baseUrl = lit ''https://api.responsibleailabs.ai'',
          the_timeout = Fin 60000\<rparr>"
        "lit ''/health''" "\<lparr>http_method = Some (lit ''GET''), headers = [], body = None\<rparr>"
        "\<lparr>status = 200, statusText = lit ''OK'',
                     json = Inr (JObj [(lit ''ok'', JBool True),
                                       (lit ''version'', JStr (lit ''1.0.0''))])\<rparr>"
        "\<lambda>q. []" "[]"]
    success_response_result
    [of "\<lambda>c. Responds \<lparr>status = 204, statusText = lit ''No Content'',
                     json = Inl \<lparr>name = lit ''FetchError'',
                                 message = lit ''Unexpected end of JSON input''\<rparr>\<rparr>"
        "\<lparr>the_apiKey = lit ''test-api-key'', the_baseUrl = lit ''https://api.responsibleailabs.ai'',
          the_timeout = Fin 60000\<rparr>"
        "lit ''/health''" "\<lparr>http_method = Some (lit ''GET''), headers = [], body = None\<rparr>"
        "\<lparr>status = 204, statusText = lit ''No Content'',
                     json = Inl \<lparr>name = lit ''FetchError'',
                                 message = lit ''Unexpected end of JSON input''\<rparr>\<rparr>"
        "\<lambda>q. []" "[]"]
  by (simp add: ok_def lit_def)

text \<open>
  C3 as stated lets the failure of the parse through, outside the client's error classes. A
  status 200 with a body that does not parse ends in a \<open>NetworkError\<close>.
\<close>

theorem malformed_success_body_counterexample:
  "fst (request (\<lambda>q. [])
     \<lparr>the_apiKey = lit ''test-api-key'', the_baseUrl = lit ''https://api.responsibleailabs.ai'',
      the_timeout = Fin 60000\<rparr>
     (\<lambda>c. Responds \<lparr>status = 200, statusText = lit ''OK'',
                     json = Inl \<lparr>name = lit ''SyntaxError'',
                                 message = lit ''Unexpected end of JSON input''\<rparr>\<rparr>)
     (lit ''/health'') \<lparr>http_method = Some (lit ''GET''), headers = [], body = None\<rparr> [])
   = Inl (NetworkError (lit ''Network request failed: Unexpected end of JSON input'')
            (Some \<lparr>name = lit ''SyntaxError'', message = lit ''Unexpected end of JSON input''\<rparr>))"
  by (simp add: request_def ok_def catch_block_def Let_def lit_def)

subsection \<open>Local validation in \<open>generate\<close>\<close>

text \<open>
  Below a lower bound or above an upper one, \<open>generate\<close> throws before any call; otherwise
  the result is the one of \<open>request\<close>, which makes its call.
\<close>

lemma generate_checks:
  "((\<forall>u\<in>set prompt. is_ws u)
      \<or> (\<exists>t. Option.bind options targetScore = Some t \<and> (js_lt t (Fin 0) \<or> js_lt (Fin 10) t))
      \<or> (\<exists>n. Option.bind options maxIterations = Some n \<and> (js_lt n (Fin 1) \<or> js_lt (Fin 10) n))
      \<or> (\<exists>t. Option.bind options temperature = Some t \<and> (js_lt t (Fin 0) \<or> js_lt (Fin 2) t))
     \<longrightarrow> (\<exists>m. generate f client fetch prompt options w = (Inl (ValidationError m None), w)))
   \<and> (\<not> ((\<forall>u\<in>set prompt. is_ws u)
      \<or> (\<exists>t. Option.bind options targetScore = Some t \<and> (js_lt t (Fin 0) \<or> js_lt (Fin 10) t))
      \<or> (\<exists>n. Option.bind options maxIterations = Some n \<and> (js_lt n (Fin 1) \<or> js_lt (Fin 10) n))
      \<or> (\<exists>t. Option.bind options temperature = Some t \<and> (js_lt t (Fin 0) \<or> js_lt (Fin 2) t)))
     \<longrightarrow> generate f client fetch prompt options w
           = request f client fetch (lit ''/v1/generation/generate'')
               \<lparr>http_method = Some (lit ''POST''), headers = [],
                body = Some (generate_body prompt options)\<rparr> w
         \<and> snd (generate f client fetch prompt options w)
           = w @ [fetch_args client (lit ''/v1/generation/generate'')
                    \<lparr>http_method = Some (lit ''POST''), headers = [],
                     body = Some (generate_body prompt options)\<rparr>])"
  unfolding generate_def prompt_check range_check
  by (simp add: request_world)

text \<open>
  C8 has every \<open>targetScore\<close> outside the interval from 0 to 10 rejected before any call.
  NaN is not in the interval, yet both comparisons of the check are false for it: no
  \<open>ValidationError\<close> is thrown and the call is made, with \<open>target_score\<close> sent as \<open>null\<close>.
\<close>

theorem generate_accepts_NaN:
  "generate (\<lambda>q. [])
     \<lparr>the_apiKey = lit ''test-api-key'', the_baseUrl = lit ''https://api.responsibleailabs.ai'',
      the_timeout = Fin 60000\<rparr>
     (\<lambda>c. Responds \<lparr>status = 200, statusText = lit ''OK'',
                     json = Inr (JObj [(lit ''content'', JStr (lit ''Generated''))])\<rparr>)
     (lit ''Test prompt'')
     (Some \<lparr>targetScore = Some NaN, dimensions = None, maxIterations = None,
            temperature = None\<rparr>) []
   = (Inr (JObj [(lit ''content'', JStr (lit ''Generated''))]),
      [\<lparr>http_method = Some (lit ''POST''),
        headers = [(lit ''Content-Type'', lit ''application/json''),
                   (lit ''Authorization'', lit ''Bearer test-api-key''),
                   (lit ''User-Agent'', lit ''rail-score-js/1.0.0'')],
        body = Some (JObj [(lit ''prompt'', JStr (lit ''Test prompt'')),
                           (lit ''target_score'', JNull)]),
        url = lit ''https://api.responsibleailabs.ai/v1/generation/generate''\<rparr>])"
  by (simp add: generate_def trim_def is_ws_def request_def fetch_args_def ok_def Let_def
      generate_body_def property_def number_json_def lit_def)

subsection \<open>A message that has no string conversion\<close>

text \<open>
  C1 has every body classified by the status alone. The classifier converts the message to a
  string, in the template literal of the default branch and in the \<open>Error\<close> constructor.
  For the body \<open>{"message": {"toString": 0}}\<close> the conversion throws a TypeError, and that
  is what \<open>handleError\<close> throws on status 404, instead of a \<open>RailScoreError\<close>.
\<close>

theorem handleError_unconvertible_message:
  "handleError (\<lambda>q. [])
     \<lparr>status = 404, statusText = lit ''Not Found'',
      json = Inr (JObj [(lit ''message'', JObj [(lit ''toString'', JNum (Fin 0))])])\<rparr>
   = Foreign type_error"
  by (simp add: handleError_def errorData_def or_else_def js_or_def new_RailScoreError_def
      construct_def lit_def)

text \<open>
  C2 has \<open>request\<close> throw the classified error of the status. For the same response the
  TypeError reaches the \<open>catch\<close> block, and \<open>request\<close> throws a \<open>NetworkError\<close> that
  wraps it.
\<close>

theorem request_unconvertible_message:
  "fst (request (\<lambda>q. [])
     \<lparr>the_apiKey = lit ''test-api-key'', the_baseUrl = lit ''https://api.responsibleailabs.ai'',
      the_timeout = Fin 60000\<rparr>
     (\<lambda>c. Responds \<lparr>status = 404, statusText = lit ''Not Found'',
                     json = Inr (JObj [(lit ''message'',
                                        JObj [(lit ''toString'', JNum (Fin 0))])])\<rparr>)
     (lit ''/v1/credits'') \<lparr>http_method = Some (lit ''GET''), headers = [], body = None\<rparr> [])
   = Inl (NetworkError (lit ''Network request failed: Cannot convert object to primitive value'')
            (Some type_error))"
  by (simp add: request_def ok_def catch_block_def Let_def handleError_def errorData_def or_else_def
      js_or_def new_RailScoreError_def construct_def type_error_def lit_def)

end
